theory Spec2Isabelle
  imports Complex_Main "HOL-Library.Code_Target_Numeral"
begin

section \<open>EDX plots: a model of \<open>internal_functions/edx.py\<close>\<close>

text \<open>
  The module has three functions: \<open>generate_spectra\<close> (one spectrum file to a scatter
  plot), \<open>get_elements\<close> (the quantified elements of the summary spreadsheet) and
  \<open>generate_heatmap\<close> (one element of the summary to a heatmap). They are modelled as
  pure functions of an explicit file system; every exception of the Python is a value
  \<open>Inl e\<close>, every normal return a value \<open>Inr r\<close>.

  Numbers: Python's \<open>int\<close> is \<open>int\<close>. In the spectrum reader Python's \<open>float\<close> is
  modelled by exact rationals (\<open>rat\<close>): rounding is not modelled there, and the
  non-finite floats have no counterpart (a text that denotes one yields
  \<open>NonFiniteFloat\<close>, which is not a Python exception but the mark of an input outside
  the model). In the summary reader, where the code compares a float with \<open>0.0\<close>, a
  float is a double (\<open>pyfloat\<close>): a finite value, an infinity or NaN, and \<open>float\<close> rounds
  to the nearest double. \<open>numpy\<close>'s integers are the 64-bit ones. Text is ASCII.
\<close>

subsection \<open>Exceptions\<close>

datatype py_error =
    TypeError
  | ValueError
  | IndexError
  | AttributeError
  | UnboundLocalError
  | FileNotFoundError
  | ParseError
  | InvalidFileException
  | OverflowError
  | NonFiniteFloat
  | OutsideInt64

text \<open>
  The last two are not Python exceptions. They mark the inputs that the model leaves
  out: \<open>NonFiniteFloat\<close> a calibration text that denotes an infinity or NaN,
  \<open>OutsideInt64\<close> a scan position that no 64-bit integer holds (what \<open>numpy\<close> makes of it
  depends on its version).
\<close>

subsection \<open>The builtins \<open>int\<close>, \<open>float\<close>, \<open>str\<close> and \<open>str.split\<close>\<close>

definition is_space :: "char \<Rightarrow> bool" where
  \<comment> \<open>the ASCII characters that \<open>str.strip()\<close> and the number parsers skip\<close>
  "is_space c = (c \<in> set [CHR 0x09, CHR 0x0A, CHR 0x0B, CHR 0x0C, CHR 0x0D,
                            CHR 0x1C, CHR 0x1D, CHR 0x1E, CHR 0x1F, CHR 0x20])"

definition strip :: "string \<Rightarrow> string" where
  "strip s = rev (dropWhile is_space (rev (dropWhile is_space s)))"

definition is_digit :: "char \<Rightarrow> bool" where
  "is_digit c = (48 \<le> (of_char c :: nat) \<and> (of_char c :: nat) \<le> 57)"

definition digit_val :: "char \<Rightarrow> nat" where
  "digit_val c = of_char c - (48::nat)"

text \<open>
  A run of decimal digits in which single underscores may separate digits
  (\<open>1_000\<close>), as both parsers accept it. \<open>digits_acc prev acc s\<close> reads \<open>s\<close> with the
  value \<open>acc\<close> read so far; \<open>prev\<close> tells whether the previous character was a digit.
  The result is the value and the number of digits read, or \<open>None\<close>.
\<close>

fun digits_acc :: "bool \<Rightarrow> nat \<times> nat \<Rightarrow> string \<Rightarrow> (nat \<times> nat) option" where
  "digits_acc prev acc [] = (if prev then Some acc else None)"
| "digits_acc prev (v, n) (c # cs) =
     (if is_digit c then digits_acc True (10 * v + digit_val c, Suc n) cs
      else if c = CHR ''_'' \<and> prev then digits_acc False (v, n) cs
      else None)"

definition digits :: "string \<Rightarrow> (nat \<times> nat) option" where
  "digits s = digits_acc False (0, 0) s"

definition split_sign :: "string \<Rightarrow> bool \<times> string" where
  \<comment> \<open>an optional sign; the flag says whether it was a minus\<close>
  "split_sign s =
     (case s of
        c # cs \<Rightarrow> if c = CHR ''-'' then (True, cs)
                  else if c = CHR ''+'' then (False, cs)
                  else (False, s)
      | [] \<Rightarrow> (False, s))"

definition py_int :: "string \<Rightarrow> py_error + int" where
  \<comment> \<open>\<open>int(s)\<close> for a string \<open>s\<close>, base 10\<close>
  "py_int s =
     (let (neg, body) = split_sign (strip s) in
      case digits body of
        None \<Rightarrow> Inl ValueError
      | Some (v, n) \<Rightarrow> Inr (if neg then - int v else int v))"

definition int_of_text :: "string option \<Rightarrow> py_error + int" where
  \<comment> \<open>\<open>int(elm.text)\<close>: the text of an element is \<open>None\<close> or a string\<close>
  "int_of_text t = (case t of None \<Rightarrow> Inl TypeError | Some s \<Rightarrow> py_int s)"

definition lower :: "char \<Rightarrow> char" where
  "lower c = (if 65 \<le> (of_char c :: nat) \<and> (of_char c :: nat) \<le> 90
              then char_of (of_char c + (32::nat)) else c)"

definition is_nonfinite :: "string \<Rightarrow> bool" where
  "is_nonfinite s = (map lower s \<in> set [''inf'', ''infinity'', ''nan''])"

definition split_at :: "(char \<Rightarrow> bool) \<Rightarrow> string \<Rightarrow> string \<times> string option" where
  \<comment> \<open>the text before the first character satisfying \<open>p\<close>, and the text after it\<close>
  "split_at p s =
     (case dropWhile (\<lambda>c. \<not> p c) s of
        [] \<Rightarrow> (s, None)
      | c # r \<Rightarrow> (takeWhile (\<lambda>c. \<not> p c) s, Some r))"

definition mantissa :: "string \<Rightarrow> rat option" where
  \<comment> \<open>\<open>digits\<close>, \<open>digits.\<close>, \<open>digits.digits\<close> or \<open>.digits\<close>\<close>
  "mantissa s =
     (case split_at (\<lambda>c. c = CHR ''.'') s of
        (ip, None) \<Rightarrow> map_option (\<lambda>(v, n). of_nat v) (digits ip)
      | (ip, Some fp) \<Rightarrow>
          (if ip = [] \<and> fp = [] then None
           else case (if ip = [] then Some (0, 0) else digits ip,
                      if fp = [] then Some (0, 0) else digits fp) of
                  (Some (v, n), Some (w, m)) \<Rightarrow> Some (of_nat v + of_nat w / 10 ^ m)
                | _ \<Rightarrow> None))"

definition exponent :: "string \<Rightarrow> int option" where
  "exponent s =
     (let (neg, body) = split_sign s in
      map_option (\<lambda>(v, n). if neg then - int v else int v) (digits body))"

definition pow10 :: "int \<Rightarrow> rat" where
  "pow10 e = (if 0 \<le> e then 10 ^ nat e else 1 / 10 ^ nat (- e))"

definition py_float :: "string \<Rightarrow> py_error + rat" where
  \<comment> \<open>\<open>float(s)\<close> for a string \<open>s\<close>\<close>
  "py_float s =
     (let (neg, body) = split_sign (strip s) in
      if is_nonfinite body then Inl NonFiniteFloat
      else
        let (m, e) = split_at (\<lambda>c. c = CHR ''e'' \<or> c = CHR ''E'') body in
        case (mantissa m, case e of None \<Rightarrow> Some 0 | Some x \<Rightarrow> exponent x) of
          (Some q, Some k) \<Rightarrow> Inr ((if neg then - q else q) * pow10 k)
        | _ \<Rightarrow> Inl ValueError)"

definition float_of_text :: "string option \<Rightarrow> py_error + rat" where
  \<comment> \<open>\<open>float(elm.text)\<close>\<close>
  "float_of_text t = (case t of None \<Rightarrow> Inl TypeError | Some s \<Rightarrow> py_float s)"

definition trunc :: "rat \<Rightarrow> int" where
  \<comment> \<open>\<open>int(f)\<close> for a float \<open>f\<close>: rounding towards zero\<close>
  "trunc q = (if q < 0 then \<lceil>q\<rceil> else \<lfloor>q\<rfloor>)"

text \<open>
  Doubles. A \<open>pyfloat\<close> is a value of Python's \<open>float\<close>; \<open>Finite q\<close> stands for the double
  of value \<open>q\<close> (both zeros are \<open>Finite 0\<close>). \<open>to_double\<close> rounds a rational to the nearest
  double, ties to the even mantissa: 53 bits of mantissa, the least exponent -1022
  (below it the spacing stays \<open>2^-1074\<close>), and infinity from \<open>2^1024\<close> on.
\<close>

datatype pyfloat = Finite rat | PosInf | NegInf | NaN

function bitlen :: "int \<Rightarrow> int" where
  \<comment> \<open>the number of binary digits of a positive integer\<close>
  "bitlen n = (if n \<le> 0 then 0 else 1 + bitlen (n div 2))"
  by pat_completeness auto
termination
  by (relation "measure nat") auto

declare bitlen.simps [simp del]

definition pow2 :: "int \<Rightarrow> rat" where
  "pow2 e = (if 0 \<le> e then 2 ^ nat e else 1 / 2 ^ nat (- e))"

definition ilog2 :: "rat \<Rightarrow> int" where
  \<comment> \<open>the exponent \<open>e\<close> with \<open>2^e \<le> |q| < 2^(e+1)\<close>, for \<open>q\<close> other than 0\<close>
  "ilog2 q =
     (let (n, d) = quotient_of \<bar>q\<bar>;
          k = bitlen n - bitlen d
      in if pow2 k \<le> \<bar>q\<bar> then k else k - 1)"

definition round_even :: "rat \<Rightarrow> int" where
  \<comment> \<open>the nearest integer, the even one of two equally near\<close>
  "round_even q =
     (let f = \<lfloor>q\<rfloor>; d = q - of_int f
      in if d < 1 / 2 then f
         else if 1 / 2 < d then f + 1
         else if even f then f else f + 1)"

definition to_double :: "rat \<Rightarrow> pyfloat" where
  "to_double q =
     (let u = pow2 (max (ilog2 q) (- 1022) - 52);
          r = of_int (round_even (q / u)) * u
      in if 2 ^ 1024 \<le> \<bar>r\<bar> then (if q < 0 then NegInf else PosInf) else Finite r)"

definition float_str :: "string \<Rightarrow> py_error + pyfloat" where
  \<comment> \<open>\<open>float(s)\<close> for a string \<open>s\<close>, as a double\<close>
  "float_str s =
     (let (neg, body) = split_sign (strip s) in
      if map lower body \<in> set [''inf'', ''infinity''] then Inr (if neg then NegInf else PosInf)
      else if map lower body = ''nan'' then Inr NaN
      else case py_float s of Inl e \<Rightarrow> Inl e | Inr q \<Rightarrow> Inr (to_double q))"

definition float_int :: "int \<Rightarrow> py_error + pyfloat" where
  \<comment> \<open>\<open>float(n)\<close> for an \<open>int\<close>: the nearest double, \<open>OverflowError\<close> beyond the doubles\<close>
  "float_int n =
     (case to_double (of_int n) of
        Finite r \<Rightarrow> Inr (Finite r)
      | _ \<Rightarrow> Inl OverflowError)"

fun str_nat :: "nat \<Rightarrow> string" where
  "str_nat n = (if n < 10 then [char_of (48 + n)]
                else str_nat (n div 10) @ [char_of (48 + n mod 10)])"

declare str_nat.simps [simp del]

definition str_int :: "int \<Rightarrow> string" where
  \<comment> \<open>\<open>str(i)\<close>, as an f-string formats an \<open>int\<close>\<close>
  "str_int i = (if i < 0 then CHR ''-'' # str_nat (nat (- i)) else str_nat (nat i))"

fun split_on :: "char \<Rightarrow> string \<Rightarrow> string list" where
  \<comment> \<open>\<open>s.split(sep)\<close> for a separator of one character\<close>
  "split_on sep [] = [[]]"
| "split_on sep (c # cs) =
     (if c = sep then [] # split_on sep cs
      else case split_on sep cs of
             w # ws \<Rightarrow> (c # w) # ws
           | [] \<Rightarrow> [[c]])"

definition startswith :: "string \<Rightarrow> string \<Rightarrow> bool" where
  "startswith s p = (take (length p) s = p)"

subsection \<open>Coordinate indexer\<close>

definition start_x :: int where "start_x = -40"
definition start_y :: int where "start_y = -40"
definition step :: int where "step = 5"

definition to_index :: "int \<Rightarrow> int \<Rightarrow> int" where
  \<comment> \<open>\<open>int((pos - start) / step + 1)\<close>, line 39: true division, then truncation\<close>
  "to_index start pos = trunc (of_int (pos - start) / of_int step + 1)"

definition toIndex :: "int \<times> int \<Rightarrow> int \<times> int" where
  "toIndex p = (to_index start_x (fst p), to_index start_y (snd p))"

definition to_position :: "int \<Rightarrow> int \<Rightarrow> int" where
  \<comment> \<open>\<open>(idx - 1) * step + start\<close>, lines 206 to 208\<close>
  "to_position start idx = (idx - 1) * step + start"

definition toPosition :: "int \<times> int \<Rightarrow> int \<times> int" where
  "toPosition p = (to_position start_x (fst p), to_position start_y (snd p))"

definition on_grid :: "int \<times> int \<Rightarrow> bool" where
  \<comment> \<open>a position of the scan grid: a whole number of steps from the start on each axis\<close>
  "on_grid p = (step dvd (fst p - start_x) \<and> step dvd (snd p - start_y))"

subsection \<open>Exceptions as values\<close>

definition pbind :: "py_error + 'a \<Rightarrow> ('a \<Rightarrow> py_error + 'b) \<Rightarrow> py_error + 'b" where
  \<comment> \<open>sequencing: an exception of the first computation ends the whole\<close>
  "pbind m f = (case m of Inl e \<Rightarrow> Inl e | Inr x \<Rightarrow> f x)"

subsection \<open>Files\<close>

text \<open>
  An element of an \<open>xml.etree.ElementTree\<close> tree: its tag, its attributes, its text
  (\<open>None\<close> when the element has none) and its children in document order.
\<close>

datatype xml = Element (tag: string) (attrib: "(string \<times> string) list")
  (etext: "string option") (children: "xml list")

definition get :: "xml \<Rightarrow> string \<Rightarrow> string option" where
  \<comment> \<open>\<open>elm.get(key)\<close>\<close>
  "get elm key = map_of (attrib elm) key"

fun iter :: "xml \<Rightarrow> xml list" where
  \<comment> \<open>\<open>elm.iter()\<close>: the element itself, then its descendants, in document order\<close>
  "iter (Element t a x cs) = Element t a x cs # concat (map iter cs)"

text \<open>
  A cell value of the spreadsheet, as \<open>openpyxl\<close> hands it out in \<open>ws.values\<close>: \<open>None\<close>, an
  \<open>int\<close>, a \<open>float\<close>, a \<open>str\<close> or a \<open>bool\<close>.
\<close>

datatype cell = CNone | CInt int | CFloat pyfloat | CStr string | CBool bool

datatype spx_file = SpxMissing | SpxMalformed | SpxDoc xml

datatype xlsx_file = XlsxMissing | XlsxInvalid | XlsxSheet "cell list list"

text \<open>The files under \<open>./data/EDX\<close>, by path, as the two readers find them.\<close>

record filesystem =
  spx_files :: "string \<Rightarrow> spx_file"
  xlsx_files :: "string \<Rightarrow> xlsx_file"

definition ET_parse :: "filesystem \<Rightarrow> string \<Rightarrow> py_error + xml" where
  \<comment> \<open>\<open>ET.parse(filepath).getroot()\<close>\<close>
  "ET_parse fs filepath =
     (case spx_files fs filepath of
        SpxMissing \<Rightarrow> Inl FileNotFoundError
      | SpxMalformed \<Rightarrow> Inl ParseError
      | SpxDoc doc \<Rightarrow> Inr doc)"

definition load_workbook :: "filesystem \<Rightarrow> string \<Rightarrow> py_error + cell list list" where
  \<comment> \<open>\<open>load_workbook(filename=filepath)\<close>, then the rows of the active sheet\<close>
  "load_workbook fs filepath =
     (case xlsx_files fs filepath of
        XlsxMissing \<Rightarrow> Inl FileNotFoundError
      | XlsxInvalid \<Rightarrow> Inl InvalidFileException
      | XlsxSheet rows \<Rightarrow> Inr rows)"

subsection \<open>Plot descriptions\<close>

text \<open>
  What the functions return: the two dummy figures (a trace without data, sized by
  \<open>update_layout(height, width)\<close>) and the two figures with data.
\<close>

datatype figure =
    EmptyScatter nat nat
  | Scatter "rat list" "rat list" string string
  | EmptyHeatmap nat nat
  | Heatmap "int list" "int list" "pyfloat list" string string

subsection \<open>\<open>generate_spectra\<close>\<close>

record spx_state =
  voltage :: int
  working_distance :: "rat option"
  energy_step :: rat
  zero_energy :: rat
  edx_spectra :: "(rat \<times> int) list option"
  results_ext :: "(string \<times> string option) list list"
  element_list :: "(int \<times> string option) list"
  nb_elm :: "string option option"

text \<open>
  The local variables of \<open>generate_spectra\<close>. \<open>working_distance\<close>, \<open>edx_spectra\<close> and
  \<open>nb_elm\<close> are unbound (\<open>None\<close>) until their first assignment; \<open>nb_elm\<close> is bound to the
  text of an element, which may itself be \<open>None\<close>.
\<close>

definition init_state :: spx_state where
  "init_state = \<lparr> voltage = 0, working_distance = None, energy_step = 0, zero_energy = 0,
     edx_spectra = None, results_ext = [], element_list = [], nb_elm = None \<rparr>"

definition params :: "string list" where
  "params = [''Atom'', ''XLine'', ''AtomPercent'', ''MassPercent'', ''NetIntens'',
             ''Background'', ''Sigma'']"

definition fmt_text :: "string option \<Rightarrow> string" where
  \<comment> \<open>how an f-string renders \<open>elm.text\<close>\<close>
  "fmt_text t = (case t of None \<Rightarrow> ''None'' | Some s \<Rightarrow> s)"

definition append_last :: "'a \<Rightarrow> 'a list list \<Rightarrow> py_error + 'a list list" where
  \<comment> \<open>\<open>results_ext[-1].append(kv)\<close>\<close>
  "append_last kv rs =
     (if rs = [] then Inl IndexError else Inr (butlast rs @ [last rs @ [kv]]))"

fun results_walk :: "xml list \<Rightarrow> (string \<times> string option) list list
    \<Rightarrow> py_error + (string \<times> string option) list list" where
  \<comment> \<open>lines 83 to 92: the loop over \<open>elm.iter()\<close> of a Results block\<close>
  "results_walk [] rs = Inr rs"
| "results_walk (child # rest) rs =
     (if tag child = ''Result'' then results_walk rest (rs @ [[]])
      else if tag child \<in> set params then
        pbind (if tag child = ''Atom'' then int_of_text (etext child) else Inr 10) (\<lambda>n.
        pbind (if tag child = ''Atom'' \<and> n < 10
               then append_last (tag child, Some (''0'' @ fmt_text (etext child))) rs
               else append_last (tag child, etext child) rs)
          (results_walk rest))
      else if tag child = ''ExtResults'' then Inr rs
      else results_walk rest rs)"

fun last_element_text :: "xml list \<Rightarrow> string option option \<Rightarrow> string option option" where
  \<comment> \<open>lines 97 to 99: \<open>nb_elm\<close> after the loop over \<open>child.iter()\<close>\<close>
  "last_element_text [] nb = nb"
| "last_element_text (e # es) nb =
     last_element_text es (if tag e = ''Element'' then Some (etext e) else nb)"

fun elements_walk :: "xml list \<Rightarrow> (int \<times> string option) list \<times> string option option
    \<Rightarrow> py_error + (int \<times> string option) list \<times> string option option" where
  \<comment> \<open>lines 94 to 100: the loop over \<open>elm.iter()\<close> of an Elements block\<close>
  "elements_walk [] acc = Inr acc"
| "elements_walk (child # rest) (els, nb) =
     (if get child ''Type'' = Some ''TRTPSEElement'' then
        (let name_elm = get child ''Name'';
             nb' = last_element_text (iter child) nb
         in pbind (case nb' of None \<Rightarrow> Inl UnboundLocalError | Some t \<Rightarrow> int_of_text t) (\<lambda>n.
            elements_walk rest (els @ [(n, name_elm)], nb')))
      else elements_walk rest (els, nb))"

fun channels :: "rat \<Rightarrow> rat \<Rightarrow> (nat \<times> string) list \<Rightarrow> py_error + (rat \<times> int) list" where
  \<comment> \<open>lines 77 to 80: the list comprehension over \<open>enumerate(elm.text.split(","))\<close>\<close>
  "channels es ze [] = Inr []"
| "channels es ze ((i, counts) # rest) =
     pbind (py_int counts) (\<lambda>c.
     pbind (channels es ze rest) (\<lambda>sp.
       Inr (((of_nat i + 1) * es + ze, c) # sp)))"

definition spx_step :: "xml \<Rightarrow> spx_state \<Rightarrow> py_error + spx_state" where
  \<comment> \<open>lines 67 to 100: the body of the loop over \<open>root.iter()\<close>\<close>
  "spx_step elm s =
     (if tag elm = ''PrimaryEnergy'' then
        pbind (float_of_text (etext elm)) (\<lambda>f. Inr (s\<lparr>voltage := trunc f\<rparr>))
      else if tag elm = ''WorkingDistance'' then
        pbind (float_of_text (etext elm)) (\<lambda>f. Inr (s\<lparr>working_distance := Some f\<rparr>))
      else if tag elm = ''CalibLin'' then
        pbind (float_of_text (etext elm)) (\<lambda>f. Inr (s\<lparr>energy_step := f\<rparr>))
      else if tag elm = ''CalibAbs'' then
        pbind (float_of_text (etext elm)) (\<lambda>f. Inr (s\<lparr>zero_energy := f\<rparr>))
      else if tag elm = ''Channels'' then
        (case etext elm of
           None \<Rightarrow> Inl AttributeError
         | Some t \<Rightarrow>
             pbind (channels (energy_step s) (zero_energy s)
                      (List.enumerate 0 (split_on CHR '','' t))) (\<lambda>sp.
               Inr (s\<lparr>edx_spectra := Some sp\<rparr>)))
      else if tag elm = ''ClassInstance'' \<and> get elm ''Name'' = Some ''Results'' then
        pbind (results_walk (iter elm) (results_ext s)) (\<lambda>rs. Inr (s\<lparr>results_ext := rs\<rparr>))
      else if tag elm = ''ClassInstance'' \<and> get elm ''Name'' = Some ''Elements'' then
        pbind (elements_walk (iter elm) (element_list s, nb_elm s)) (\<lambda>(els, nb).
          Inr (s\<lparr>element_list := els, nb_elm := nb\<rparr>))
      else Inr s)"

fun spx_walk :: "xml list \<Rightarrow> spx_state \<Rightarrow> py_error + spx_state" where
  \<comment> \<open>line 66: the loop over \<open>root.iter()\<close>\<close>
  "spx_walk [] s = Inr s"
| "spx_walk (elm # rest) s = pbind (spx_step elm s) (spx_walk rest)"

definition spectrum_path :: "string \<Rightarrow> int \<Rightarrow> int \<Rightarrow> string" where
  "spectrum_path foldername x_idx y_idx =
     ''./data/EDX/'' @ foldername @ ''/Spectrum_('' @ str_int x_idx @ '','' @ str_int y_idx
       @ '').spx''"

definition empty_scatter :: figure where
  "empty_scatter = EmptyScatter 700 1300"

definition spectrum_title :: "string \<Rightarrow> int \<Rightarrow> int \<Rightarrow> string" where
  "spectrum_title foldername x_pos y_pos =
     ''EDX Spectrum for '' @ foldername @ '' at position ('' @ str_int x_pos @ '', ''
       @ str_int y_pos @ '')''"

text \<open>
  \<open>np.array\<close> turns the list of \<open>(float, int)\<close> pairs into one float array, so the counts
  reach the figure as floats.
\<close>

definition generate_spectra :: "filesystem \<Rightarrow> string option \<Rightarrow> int \<Rightarrow> int \<Rightarrow> py_error + figure" where
  "generate_spectra fs foldername x_pos y_pos =
     (let x_idx = to_index start_x x_pos; y_idx = to_index start_y y_pos in
      case foldername of
        None \<Rightarrow> Inr empty_scatter
      | Some f \<Rightarrow>
          pbind (ET_parse fs (spectrum_path f x_idx y_idx)) (\<lambda>doc.
          pbind (spx_walk (iter doc) init_state) (\<lambda>s.
            case edx_spectra s of
              None \<Rightarrow> Inl UnboundLocalError
            | Some sp \<Rightarrow>
                Inr (Scatter (map fst sp) (map (\<lambda>p. of_int (snd p)) sp) ''purple''
                       (spectrum_title f x_pos y_pos)))))"

subsection \<open>\<open>get_elements\<close>\<close>

text \<open>
  \<open>get_elements\<close> returns a list (\<open>Elms\<close>) or, when \<open>with_plot\<close> is set, a pair of the list
  and the table (\<open>ElmsData\<close>).
\<close>

datatype elements_result = Elms "cell list" | ElmsData "cell list" "cell list list"

definition summary_path :: "string \<Rightarrow> string" where
  "summary_path foldername = ''./data/EDX/'' @ foldername @ ''/Global spectrum results.xlsx''"

definition float_of_cell :: "cell \<Rightarrow> py_error + pyfloat" where
  \<comment> \<open>\<open>float(v)\<close> for a cell value\<close>
  "float_of_cell c =
     (case c of
        CNone \<Rightarrow> Inl TypeError
      | CInt n \<Rightarrow> float_int n
      | CFloat f \<Rightarrow> Inr f
      | CStr s \<Rightarrow> float_str s
      | CBool b \<Rightarrow> Inr (Finite (if b then 1 else 0)))"

definition neg_index :: "'a list \<Rightarrow> nat \<Rightarrow> py_error + 'a" where
  \<comment> \<open>\<open>xs[-k]\<close> for \<open>k > 0\<close>\<close>
  "neg_index xs k = (if length xs < k then Inl IndexError else Inr (xs ! (length xs - k)))"

definition pos_index :: "'a list \<Rightarrow> nat \<Rightarrow> py_error + 'a" where
  \<comment> \<open>\<open>xs[i]\<close> for \<open>i \<ge> 0\<close>\<close>
  "pos_index xs i = (if i < length xs then Inr (xs ! i) else Inl IndexError)"

fun index_tab_loop :: "(nat \<times> cell) list \<Rightarrow> nat list \<Rightarrow> py_error + nat list" where
  \<comment> \<open>lines 154 to 157\<close>
  "index_tab_loop [] index_tab = Inr index_tab"
| "index_tab_loop ((index, elm) # rest) index_tab =
     (if index > 0 \<and> elm \<noteq> CNone then
        pbind (float_of_cell elm) (\<lambda>f.
          if f \<noteq> Finite 0 then index_tab_loop rest (index_tab @ [index])
          else index_tab_loop rest index_tab)
      else index_tab_loop rest index_tab)"

fun header_entries :: "cell list \<Rightarrow> nat list \<Rightarrow> py_error + cell list" where
  \<comment> \<open>line 158: \<open>[LIST_DATA[0][index] for index in index_tab]\<close>\<close>
  "header_entries hdr [] = Inr []"
| "header_entries hdr (index # rest) =
     pbind (pos_index hdr index) (\<lambda>c.
     pbind (header_entries hdr rest) (\<lambda>cs. Inr (c # cs)))"

definition get_elements :: "filesystem \<Rightarrow> string \<Rightarrow> bool \<Rightarrow> py_error + elements_result" where
  "get_elements fs foldername with_plot =
     (case load_workbook fs (summary_path foldername) of
        Inl e \<Rightarrow> (if e = FileNotFoundError then Inr (Elms []) else Inl e)
      | Inr LIST_DATA \<Rightarrow>
          pbind (neg_index LIST_DATA 3) (\<lambda>totals.
          pbind (index_tab_loop (List.enumerate 0 totals) []) (\<lambda>index_tab.
          pbind (pos_index LIST_DATA 0) (\<lambda>hdr.
          pbind (header_entries hdr index_tab) (\<lambda>elm_options.
            if with_plot then Inr (ElmsData elm_options LIST_DATA)
            else Inr (Elms elm_options))))))"

subsection \<open>\<open>generate_heatmap\<close>\<close>

record heat_state =
  index :: "nat option"
  X_POS :: "int list"
  Y_POS :: "int list"
  ELM :: "pyfloat list"

definition init_heat :: heat_state where
  \<comment> \<open>\<open>index\<close> is unbound until a header row is met\<close>
  "init_heat = \<lparr> index = None, X_POS = [], Y_POS = [], ELM = [] \<rparr>"

fun row_index :: "cell list \<Rightarrow> string \<Rightarrow> py_error + nat" where
  \<comment> \<open>\<open>row.index(element_edx)\<close>: the first position holding that string\<close>
  "row_index [] e = Inl ValueError"
| "row_index (c # cs) e =
     (if c = CStr e then Inr 0 else pbind (row_index cs e) (\<lambda>i. Inr (Suc i)))"

definition scan_position :: "string \<Rightarrow> py_error + int \<times> int" where
  \<comment> \<open>lines 205 to 208: the indices between the last \<open>(\<close> and the next \<open>)\<close>, as a position\<close>
  "scan_position name =
     (case split_on CHR '','' (hd (split_on CHR '')'' (last (split_on CHR ''('' name)))) of
        [x_index, y_index] \<Rightarrow>
          pbind (py_int x_index) (\<lambda>i.
          pbind (py_int y_index) (\<lambda>j.
            Inr (to_position start_x i, to_position start_y j)))
      | _ \<Rightarrow> Inl ValueError)"

text \<open>
  Line 209 computes \<open>np.abs(x_pos) + np.abs(y_pos) <= 60\<close>. \<open>np.abs\<close> turns a Python \<open>int\<close>
  that a 64-bit integer holds into an \<open>np.int64\<close>, and the arithmetic of \<open>np.int64\<close>
  wraps around.
\<close>

definition fits_int64 :: "int \<Rightarrow> bool" where
  "fits_int64 n = (- (2 ^ 63) \<le> n \<and> n < 2 ^ 63)"

definition wrap64 :: "int \<Rightarrow> int" where
  \<comment> \<open>the 64-bit two's complement value of an integer\<close>
  "wrap64 n = (n + 2 ^ 63) mod 2 ^ 64 - 2 ^ 63"

definition np_abs :: "int \<Rightarrow> int" where
  "np_abs n = wrap64 \<bar>n\<bar>"

definition in_diamond :: "int \<times> int \<Rightarrow> bool" where
  \<comment> \<open>line 209, for a position that 64-bit integers hold\<close>
  "in_diamond p = (wrap64 (np_abs (fst p) + np_abs (snd p)) \<le> 60)"

definition heat_step :: "string \<Rightarrow> cell list \<Rightarrow> heat_state \<Rightarrow> py_error + heat_state" where
  \<comment> \<open>lines 202 to 212: the body of the loop over \<open>LIST_DATA\<close>\<close>
  "heat_step element_edx row st =
     (case row of
        [] \<Rightarrow> Inl IndexError
      | c0 # _ \<Rightarrow>
          if c0 = CStr ''Spectrum'' then
            pbind (row_index row element_edx) (\<lambda>i. Inr (st\<lparr>index := Some i\<rparr>))
          else
            (case c0 of
               CStr name \<Rightarrow>
                 if startswith name ''Spectrum_'' then
                   pbind (scan_position name) (\<lambda>p.
                     if \<not> (fits_int64 (fst p) \<and> fits_int64 (snd p)) then Inl OutsideInt64
                     else if in_diamond p then
                       (case index st of
                          None \<Rightarrow> Inl UnboundLocalError
                        | Some i \<Rightarrow>
                            pbind (pos_index row i) (\<lambda>c.
                            pbind (float_of_cell c) (\<lambda>z.
                              Inr (st\<lparr>X_POS := X_POS st @ [fst p], Y_POS := Y_POS st @ [snd p],
                                      ELM := ELM st @ [z]\<rparr>))))
                     else Inr st)
                 else Inr st
             | _ \<Rightarrow> Inl AttributeError))"

fun heat_loop :: "string \<Rightarrow> cell list list \<Rightarrow> heat_state \<Rightarrow> py_error + heat_state" where
  \<comment> \<open>line 201\<close>
  "heat_loop e [] st = Inr st"
| "heat_loop e (row # rest) st = pbind (heat_step e row st) (heat_loop e rest)"

definition empty_heatmap :: figure where
  "empty_heatmap = EmptyHeatmap 800 800"

definition heatmap_title :: "string \<Rightarrow> string" where
  "heatmap_title element_edx = ''EDX Heatmap for element '' @ element_edx"

text \<open>
  Line 189 unpacks the value of \<open>get_elements\<close> into two names. A pair unpacks; the list
  that \<open>get_elements\<close> returns for a missing file does not: it is empty, and unpacking it
  raises \<open>ValueError\<close>. (With \<open>with_plot\<close> set, \<open>get_elements\<close> returns no other list.)
\<close>

definition generate_heatmap :: "filesystem \<Rightarrow> string option \<Rightarrow> string option \<Rightarrow> py_error + figure" where
  "generate_heatmap fs folderpath_edx element_edx =
     (case (folderpath_edx, element_edx) of
        (Some folder, Some element) \<Rightarrow>
          pbind (get_elements fs folder True) (\<lambda>r.
            case r of
              Elms xs \<Rightarrow> Inl ValueError
            | ElmsData elms LIST_DATA \<Rightarrow>
                if CStr element \<notin> set elms then Inr empty_heatmap
                else
                  pbind (heat_loop element LIST_DATA init_heat) (\<lambda>st.
                    Inr (Heatmap (X_POS st) (Y_POS st) (ELM st) ''Jet''
                           (heatmap_title element))))
      | _ \<Rightarrow> Inr empty_heatmap)"

subsection \<open>Notions used in the statements\<close>




definition is_header :: "cell list \<Rightarrow> bool" where
  \<comment> \<open>line 202: the row whose first cell is \<open>Spectrum\<close>\<close>
  "is_header row = (case row of c0 # _ \<Rightarrow> c0 = CStr ''Spectrum'' | [] \<Rightarrow> False)"

definition scan_point :: "cell list \<Rightarrow> (int \<times> int) option" where
  \<comment> \<open>lines 204 to 208: the position that a row names, if it names a scan point\<close>
  "scan_point row =
     (case row of
        CStr name # _ \<Rightarrow>
          if startswith name ''Spectrum_''
          then (case scan_position name of Inr p \<Rightarrow> Some p | Inl e \<Rightarrow> None)
          else None
      | _ \<Rightarrow> None)"

definition row_points :: "nat \<Rightarrow> cell list \<Rightarrow> (int \<times> int \<times> pyfloat) list" where
  \<comment> \<open>the heatmap point of a row, for the element in column \<open>idx\<close>: the position the row
      names, if line 209 keeps it, with the numeric value of the cell in that column\<close>
  "row_points idx row =
     (case scan_point row of
        Some p \<Rightarrow>
          if in_diamond p
          then (case float_of_cell (row ! idx) of Inr z \<Rightarrow> [(fst p, snd p, z)] | Inl e \<Rightarrow> [])
          else []
      | None \<Rightarrow> [])"

definition row_ok :: "nat \<Rightarrow> cell list \<Rightarrow> bool" where
  \<comment> \<open>a row, not the header, that the loop passes: its first cell is a string, and if it
      names a scan point the indices read as numbers, 64-bit integers hold the position
      and, if line 209 keeps it, the cell of column \<open>idx\<close> is numeric\<close>
  "row_ok idx row =
     (case row of
        CStr name # _ \<Rightarrow>
          if startswith name ''Spectrum_''
          then (case scan_position name of
                  Inr p \<Rightarrow>
                    fits_int64 (fst p) \<and> fits_int64 (snd p) \<and>
                    (if in_diamond p
                     then idx < length row \<and>
                          (case float_of_cell (row ! idx) of Inr z \<Rightarrow> True | Inl e \<Rightarrow> False)
                     else True)
                | Inl e \<Rightarrow> False)
          else True
      | _ \<Rightarrow> False)"

definition heat_points :: "heat_state \<Rightarrow> (int \<times> int \<times> pyfloat) list" where
  "heat_points st = zip (X_POS st) (zip (Y_POS st) (ELM st))"

definition heat_ok :: "heat_state \<Rightarrow> bool" where
  "heat_ok st = (length (X_POS st) = length (Y_POS st) \<and> length (Y_POS st) = length (ELM st))"

definition is_marker :: "xml \<Rightarrow> bool" where
  \<comment> \<open>the elements on which the walk of a Results block acts\<close>
  "is_marker c = (tag c = ''Result'' \<or> tag c \<in> set params \<or> tag c = ''ExtResults'')"

definition first_marker :: "xml list \<Rightarrow> xml option" where
  "first_marker cs = find is_marker cs"

definition result_marker_first :: "xml list \<Rightarrow> bool" where
  \<comment> \<open>a Result marker precedes the first whitelisted attribute tag, if there is one\<close>
  "result_marker_first cs =
     (case filter (\<lambda>c. tag c = ''Result'' \<or> tag c \<in> set params) cs of
        [] \<Rightarrow> True
      | c # _ \<Rightarrow> tag c = ''Result'')"

definition first_access :: "xml \<Rightarrow> py_error" where
  \<comment> \<open>what a whitelisted element raises when no record has been started: the error of
      \<open>int\<close> on the text of an Atom, else the \<open>IndexError\<close> of \<open>results_ext[-1]\<close>\<close>
  "first_access c =
     (case (if tag c = ''Atom'' then int_of_text (etext c) else Inr 10) of
        Inl e \<Rightarrow> e
      | Inr n \<Rightarrow> IndexError)"


subsection \<open>Example data\<close>

definition no_files :: filesystem where
  \<comment> \<open>a data directory without any file\<close>
  "no_files = \<lparr> spx_files = (\<lambda>p. SpxMissing), xlsx_files = (\<lambda>p. XlsxMissing) \<rparr>"






definition spx_fs :: "xml \<Rightarrow> filesystem" where
  \<comment> \<open>a data directory holding one spectrum file, of folder \<open>A\<close> at index \<open>(1,1)\<close>\<close>
  "spx_fs doc = \<lparr> spx_files = (\<lambda>p. if p = ''./data/EDX/A/Spectrum_(1,1).spx''
                                   then SpxDoc doc else SpxMissing),
                  xlsx_files = (\<lambda>p. XlsxMissing) \<rparr>"

definition doc_cal_first :: xml where
  "doc_cal_first = Element ''TRTSpectrum'' [] None
     [Element ''CalibAbs'' [] (Some ''1'') [],
      Element ''CalibLin'' [] (Some ''2'') [],
      Element ''Channels'' [] (Some ''5,6'') []]"

definition doc_cal_last :: xml where
  "doc_cal_last = Element ''TRTSpectrum'' [] None
     [Element ''Channels'' [] (Some ''5,6'') [],
      Element ''CalibAbs'' [] (Some ''1'') [],
      Element ''CalibLin'' [] (Some ''2'') []]"

definition doc_cal_late :: xml where
  "doc_cal_late = Element ''TRTSpectrum'' [] None
     [Element ''CalibLin'' [] (Some ''2'') [],
      Element ''CalibAbs'' [] (Some ''1'') [],
      Element ''Channels'' [] (Some ''5,6'') [],
      Element ''CalibLin'' [] (Some ''9'') []]"

definition doc_neg_step :: xml where
  "doc_neg_step = Element ''TRTSpectrum'' [] None
     [Element ''CalibLin'' [] (Some ''-1'') [],
      Element ''Channels'' [] (Some ''5,6'') []]"

definition block_a :: xml where
  "block_a = Element ''ClassInstance'' [(''Type'', ''TRTResult''), (''Name'', ''Results'')] None
     [Element ''Result'' [] None [Element ''Atom'' [] (Some ''26'') []]]"

definition block_b :: xml where
  "block_b = Element ''ClassInstance'' [(''Type'', ''TRTResult''), (''Name'', ''Results'')] None
     [Element ''Atom'' [] (Some ''8'') []]"


definition doc_two_blocks :: xml where
  "doc_two_blocks = Element ''TRTSpectrum'' [] None [block_a, block_b]"

section \<open>Properties\<close>

lemma pbind_Inr_iff: "pbind m f = Inr y \<longleftrightarrow> (\<exists>x. m = Inr x \<and> f x = Inr y)"
  by (cases m) (simp_all add: pbind_def)

subsection \<open>Coordinate indexer\<close>

lemma trunc_of_int: "trunc (of_int n) = n"
  by (simp add: trunc_def)

lemma to_index_on_grid: "to_index start (start + step * k) = k + 1"
proof -
  have "(of_int (start + step * k - start) :: rat) / of_int step + 1 = of_int (k + 1)"
    by (simp add: step_def)
  then show ?thesis
    unfolding to_index_def by (simp only: trunc_of_int)
qed

text \<open>
  C1. A position of the scan grid (a whole number of 5 mm steps from -40 on each axis)
  converted to its scan index and back is the position itself. On the grid the quotient
  \<open>(pos - start) / step\<close> is a whole number, so the float division of the code is exact
  there for every position whose index a double holds.
\<close>

theorem toPosition_toIndex:
  assumes "on_grid (x, y)"
  shows "toPosition (toIndex (x, y)) = (x, y)"
proof -
  from assms obtain i j where x: "x = start_x + step * i" and y: "y = start_y + step * j"
    unfolding on_grid_def dvd_def by (auto simp: algebra_simps)
  show ?thesis
    unfolding toPosition_def toIndex_def x y
    by (simp add: to_index_on_grid to_position_def)
qed

theorem toPosition_toIndex_witness:
  "on_grid (-35, 40) \<and> toIndex (-35, 40) = (2, 17) \<and> toPosition (toIndex (-35, 40)) = (-35, 40)"
proof -
  have g: "on_grid (-35, 40)"
    by (simp add: on_grid_def step_def start_x_def start_y_def)
  have i: "toIndex (-35, 40) = (2, 17)"
    by (simp add: toIndex_def to_index_def trunc_def step_def start_x_def start_y_def)
  from g i toPosition_toIndex [OF g] show ?thesis by simp
qed

subsection \<open>Absent selections and the missing summary file\<close>

lemma generate_spectra_no_folder: "generate_spectra fs None x_pos y_pos = Inr empty_scatter"
  by (simp add: generate_spectra_def)

lemma generate_heatmap_absent_input:
  "generate_heatmap fs None element_edx = Inr empty_heatmap"
  "generate_heatmap fs folderpath_edx None = Inr empty_heatmap"
  by (simp_all add: generate_heatmap_def split: option.splits)

lemma generate_heatmap_not_quantified:
  assumes "get_elements fs folder True = Inr (ElmsData elms LIST_DATA)"
    and "CStr element \<notin> set elms"
  shows "generate_heatmap fs (Some folder) (Some element) = Inr empty_heatmap"
  using assms by (simp add: generate_heatmap_def pbind_def)

text \<open>With the table requested, the only list that \<open>get_elements\<close> returns is the empty one.\<close>

lemma get_elements_with_plot_list:
  assumes "get_elements fs foldername True = Inr (Elms xs)"
  shows "xs = [] \<and> xlsx_files fs (summary_path foldername) = XlsxMissing"
proof (cases "xlsx_files fs (summary_path foldername)")
  case XlsxMissing
  with assms show ?thesis by (simp add: get_elements_def load_workbook_def)
next
  case XlsxInvalid
  with assms show ?thesis by (simp add: get_elements_def load_workbook_def)
next
  case (XlsxSheet table)
  with assms have "pbind (neg_index table 3) (\<lambda>totals.
          pbind (index_tab_loop (List.enumerate 0 totals) []) (\<lambda>index_tab.
          pbind (pos_index table 0) (\<lambda>hdr.
          pbind (header_entries hdr index_tab) (\<lambda>elm_options.
            Inr (ElmsData elm_options table))))) = Inr (Elms xs)"
    by (simp add: get_elements_def load_workbook_def)
  then show ?thesis unfolding pbind_Inr_iff by blast
qed

text \<open>
  C7. When the summary spreadsheet of a folder does not exist, \<open>get_elements\<close> without the
  table returns the empty list, and raises nothing.
\<close>

theorem get_elements_missing_file:
  assumes "xlsx_files fs (summary_path foldername) = XlsxMissing"
  shows "get_elements fs foldername False = Inr (Elms [])"
  using assms by (simp add: get_elements_def load_workbook_def)

theorem get_elements_missing_file_witness:
  "xlsx_files no_files (summary_path ''A'') = XlsxMissing
   \<and> get_elements no_files ''A'' False = Inr (Elms [])"
proof -
  have h: "xlsx_files no_files (summary_path ''A'') = XlsxMissing"
    by (simp add: no_files_def)
  from h get_elements_missing_file [OF h] show ?thesis by simp
qed

text \<open>
  C3. The missing summary file is not recovered by every consumer. With the table
  requested, \<open>get_elements\<close> still returns the bare empty list and not a pair of an empty
  list and an empty table; \<open>generate_heatmap\<close> unpacks that value into two names and raises
  \<open>ValueError\<close>.
\<close>

theorem heatmap_missing_summary_raises:
  "get_elements no_files ''A'' True = Inr (Elms []) \<and>
   generate_heatmap no_files (Some ''A'') (Some ''Fe'') = Inl ValueError"
  by (simp add: generate_heatmap_def get_elements_def load_workbook_def no_files_def pbind_def)

text \<open>
  C6. For a folder without summary file the element options are the empty list, so no
  requested element is among them; \<open>generate_heatmap\<close> does not return the empty plot
  there. (The absent selections themselves are answered by the empty plots:
  \<open>generate_spectra_no_folder\<close>, \<open>generate_heatmap_absent_input\<close>; so is an element that a
  readable summary does not list: \<open>generate_heatmap_not_quantified\<close>.)
\<close>

theorem heatmap_element_not_listed_raises:
  "get_elements no_files ''A'' False = Inr (Elms []) \<and>
   CStr ''Fe'' \<notin> set [] \<and>
   generate_heatmap no_files (Some ''A'') (Some ''Fe'') \<noteq> Inr empty_heatmap"
  by (simp add: generate_heatmap_def get_elements_def load_workbook_def no_files_def pbind_def)

subsection \<open>The quantified elements\<close>













subsection \<open>The points of the heatmap\<close>

lemma heat_step_data:
  assumes "heat_step e row st = Inr st'" and "\<not> is_header row" and "index st = Some idx"
    and "heat_ok st"
  shows "index st' = Some idx \<and> heat_ok st'
       \<and> heat_points st' = heat_points st @ row_points idx row
       \<and> (\<forall>p. scan_point row = Some p \<and> in_diamond p
              \<longrightarrow> idx < length row \<and> (\<exists>z. float_of_cell (row ! idx) = Inr z))"
proof (cases row)
  case Nil
  with assms show ?thesis by (simp add: heat_step_def)
next
  case (Cons c0 rest)
  with assms(2) have nh: "c0 \<noteq> CStr ''Spectrum''" by (simp add: is_header_def)
  show ?thesis
  proof (cases c0)
    case (CStr name)
    show ?thesis
    proof (cases "startswith name ''Spectrum_''")
      case False
      with assms Cons CStr nh show ?thesis
        by (auto simp: heat_step_def scan_point_def row_points_def)
    next
      case sw: True
      show ?thesis
      proof (cases "scan_position name")
        case (Inl err)
        with assms Cons CStr nh sw show ?thesis
          by (auto simp: heat_step_def pbind_def)
      next
        case (Inr p)
        then have sp: "scan_point row = Some p"
          using Cons CStr sw by (simp add: scan_point_def)
        have fit: "fits_int64 (fst p) \<and> fits_int64 (snd p)"
        proof (rule ccontr)
          assume "\<not> ?thesis"
          with assms(1) Cons CStr nh sw Inr show False
            by (simp add: heat_step_def pbind_def)
        qed
        show ?thesis
        proof (cases "in_diamond p")
          case False
          with assms Cons CStr nh sw Inr sp fit show ?thesis
            by (auto simp: heat_step_def pbind_def row_points_def)
        next
          case True
          from assms(1) obtain z where i: "idx < length row"
            and z: "float_of_cell (row ! idx) = Inr z"
            and st': "st' = st\<lparr>X_POS := X_POS st @ [fst p], Y_POS := Y_POS st @ [snd p],
                                ELM := ELM st @ [z]\<rparr>"
            using Cons CStr nh sw Inr True assms(3) fit
            by (auto simp: heat_step_def pbind_Inr_iff pos_index_def split: if_splits)
          from assms(4) st' sp True z i assms(3) show ?thesis
            by (simp add: heat_ok_def heat_points_def row_points_def)
        qed
      qed
    qed
  qed (use assms Cons in \<open>auto simp: heat_step_def\<close>)
qed


lemma heat_step_header:
  assumes "is_header hdr"
  shows "heat_step e hdr st = pbind (row_index hdr e) (\<lambda>i. Inr (st\<lparr>index := Some i\<rparr>))"
  using assms by (cases hdr) (simp_all add: heat_step_def is_header_def)





lemma heat_loop_header:
  assumes "is_header hdr" and "row_index hdr e = Inr idx"
  shows "heat_loop e (hdr # rows) init_heat = heat_loop e rows (init_heat\<lparr>index := Some idx\<rparr>)"
  by (simp add: heat_step_header [OF assms(1)] assms(2) pbind_def)

lemma heat_step_returns:
  assumes "\<not> is_header row" and "index st = Some idx" and "row_ok idx row"
  shows "\<exists>st'. heat_step e row st = Inr st'"
proof -
  from assms(3) obtain name rest where row: "row = CStr name # rest"
    by (auto simp: row_ok_def split: list.splits cell.splits)
  with assms(1) have nh: "name \<noteq> ''Spectrum''" by (simp add: is_header_def)
  show ?thesis
  proof (cases "startswith name ''Spectrum_''")
    case False
    with row nh show ?thesis by (simp add: heat_step_def)
  next
    case True
    with assms(3) row obtain p where p: "scan_position name = Inr p"
      by (cases "scan_position name") (auto simp: row_ok_def)
    with assms(3) row True have fit: "fits_int64 (fst p) \<and> fits_int64 (snd p)"
      by (simp add: row_ok_def)
    show ?thesis
    proof (cases "in_diamond p")
      case False
      with row nh True p fit show ?thesis by (simp add: heat_step_def pbind_def)
    next
      case d: True
      with assms(3) row True p obtain z where "idx < length row"
        and "float_of_cell (row ! idx) = Inr z"
        by (cases "float_of_cell (row ! idx)") (auto simp: row_ok_def)
      with row nh True p d fit assms(2) show ?thesis
        by (simp add: heat_step_def pbind_def pos_index_def)
    qed
  qed
qed

lemma heat_loop_returns:
  assumes "\<forall>r\<in>set rows. \<not> is_header r \<and> row_ok idx r" and "index st = Some idx"
    and "heat_ok st"
  shows "\<exists>st'. heat_loop e rows st = Inr st'"
  using assms
proof (induction rows arbitrary: st)
  case Nil
  show ?case by simp
next
  case (Cons row rows)
  from Cons.prems(1) have nh: "\<not> is_header row" and ok: "row_ok idx row"
    and rest: "\<forall>r\<in>set rows. \<not> is_header r \<and> row_ok idx r"
    by simp_all
  from heat_step_returns [OF nh Cons.prems(2) ok] obtain st1 where
    s: "heat_step e row st = Inr st1" by blast
  from heat_step_data [OF s nh Cons.prems(2,3)] have "index st1 = Some idx" "heat_ok st1"
    by simp_all
  from Cons.IH [OF rest this] s show ?case by (simp add: pbind_def)
qed

lemma generate_heatmap_returns:
  assumes "get_elements fs folder True = Inr (ElmsData elms (hdr # rows))"
    and "CStr element \<in> set elms"
    and "is_header hdr" and "row_index hdr element = Inr idx"
    and "\<forall>r\<in>set rows. \<not> is_header r \<and> row_ok idx r"
  shows "\<exists>X Y Z. generate_heatmap fs (Some folder) (Some element)
                  = Inr (Heatmap X Y Z ''Jet'' (heatmap_title element))"
proof -
  have "heat_ok (init_heat\<lparr>index := Some idx\<rparr>)"
    by (simp add: heat_ok_def init_heat_def)
  from heat_loop_returns [OF assms(5) _ this, of element] obtain st where
    "heat_loop element rows (init_heat\<lparr>index := Some idx\<rparr>) = Inr st"
    by auto
  then have "heat_loop element (hdr # rows) init_heat = Inr st"
    by (simp only: heat_loop_header [OF assms(3,4)])
  with assms(1,2) show ?thesis
    by (simp add: generate_heatmap_def pbind_def)
qed













subsection \<open>The spectrum\<close>

lemma spx_walk_append: "spx_walk (xs @ ys) s = pbind (spx_walk xs s) (spx_walk ys)"
proof (induction xs arbitrary: s)
  case Nil
  show ?case by (simp add: pbind_def)
next
  case (Cons x xs)
  show ?case
    by (cases "spx_step x s") (simp_all add: pbind_def Cons.IH)
qed

lemma spx_step_keeps_spectrum:
  assumes "spx_step e s = Inr s'" and "tag e \<noteq> ''Channels''"
  shows "edx_spectra s' = edx_spectra s"
  using assms unfolding spx_step_def
  by (auto simp: pbind_Inr_iff split: if_splits)

lemma spx_walk_keeps_spectrum:
  assumes "spx_walk es s = Inr s'" and "\<forall>e\<in>set es. tag e \<noteq> ''Channels''"
  shows "edx_spectra s' = edx_spectra s"
  using assms
proof (induction es arbitrary: s)
  case Nil
  then show ?case by simp
next
  case (Cons e es)
  from Cons.prems(1) obtain s1 where 1: "spx_step e s = Inr s1" and 2: "spx_walk es s1 = Inr s'"
    by (auto simp: pbind_Inr_iff)
  from Cons.prems(2) have "tag e \<noteq> ''Channels''" and "\<forall>e\<in>set es. tag e \<noteq> ''Channels''"
    by simp_all
  with Cons.IH [OF 2] spx_step_keeps_spectrum [OF 1] show ?case by simp
qed

lemma spx_step_channels:
  assumes "spx_step ch s = Inr s'" and "tag ch = ''Channels''"
  shows "\<exists>t sp. etext ch = Some t
           \<and> channels (energy_step s) (zero_energy s) (List.enumerate 0 (split_on CHR '','' t)) = Inr sp
           \<and> edx_spectra s' = Some sp"
proof (cases "etext ch")
  case None
  with assms show ?thesis by (simp add: spx_step_def)
next
  case (Some t)
  with assms show ?thesis by (auto simp: spx_step_def pbind_Inr_iff)
qed

lemma channels_Inr:
  assumes "channels es ze ps = Inr sp"
  shows "map fst sp = map (\<lambda>p. (of_nat (fst p) + 1) * es + ze) ps
       \<and> map (\<lambda>p. py_int (snd p)) ps = map (\<lambda>p. Inr (snd p)) sp"
  using assms
proof (induction ps arbitrary: sp)
  case Nil
  then show ?case by simp
next
  case (Cons p ps)
  obtain i t where p: "p = (i, t)" by (cases p)
  from Cons.prems obtain c sp' where c: "py_int t = Inr c"
    and sp': "channels es ze ps = Inr sp'" and sp: "sp = ((of_nat i + 1) * es + ze, c) # sp'"
    by (auto simp: p pbind_Inr_iff)
  from Cons.IH [OF sp'] c sp show ?case by (simp add: p)
qed

lemma monotone_energies:
  fixes es ze :: rat
  shows "(0 \<le> es \<longrightarrow> sorted_wrt (\<le>) (map (\<lambda>k. (of_nat k + 1) * es + ze) [0..<n]))
       \<and> (es \<le> 0 \<longrightarrow> sorted_wrt (\<lambda>a b. b \<le> a) (map (\<lambda>k. (of_nat k + 1) * es + ze) [0..<n]))"
proof (intro conjI impI)
  assume "0 \<le> es"
  then have "(of_nat i + 1) * es \<le> (of_nat j + 1) * es" if "i < j" for i j :: nat
    using that by (intro mult_right_mono) simp_all
  then show "sorted_wrt (\<le>) (map (\<lambda>k. (of_nat k + 1) * es + ze) [0..<n])"
    by (simp add: sorted_wrt_iff_nth_less)
next
  assume "es \<le> 0"
  then have "(of_nat j + 1) * es \<le> (of_nat i + 1) * es" if "i < j" for i j :: nat
    using that by (intro mult_right_mono_neg) simp_all
  then show "sorted_wrt (\<lambda>a b. b \<le> a) (map (\<lambda>k. (of_nat k + 1) * es + ze) [0..<n])"
    by (simp add: sorted_wrt_iff_nth_less)
qed

lemma generate_spectra_Inr:
  assumes "generate_spectra fs (Some f) x y = Inr fig"
    and "spx_files fs (spectrum_path f (to_index start_x x) (to_index start_y y)) = SpxDoc doc"
  shows "\<exists>s sp. spx_walk (iter doc) init_state = Inr s \<and> edx_spectra s = Some sp
           \<and> fig = Scatter (map fst sp) (map (\<lambda>p. of_int (snd p)) sp) ''purple''
                    (spectrum_title f x y)"
proof -
  have p: "ET_parse fs (spectrum_path f (to_index start_x x) (to_index start_y y)) = Inr doc"
    using assms(2) by (simp add: ET_parse_def)
  show ?thesis
  proof (cases "spx_walk (iter doc) init_state")
    case (Inl e)
    with assms(1) p show ?thesis by (simp add: generate_spectra_def pbind_def)
  next
    case (Inr s)
    with assms(1) p show ?thesis
      by (cases "edx_spectra s") (simp_all add: generate_spectra_def pbind_def)
  qed
qed

lemma walk_channels_last:
  assumes "spx_walk (pre @ ch # post) s0 = Inr s2" and "tag ch = ''Channels''"
    and "\<forall>e\<in>set post. tag e \<noteq> ''Channels''" and "spx_walk pre s0 = Inr s1"
  shows "\<exists>t sp. etext ch = Some t
           \<and> channels (energy_step s1) (zero_energy s1) (List.enumerate 0 (split_on CHR '','' t)) = Inr sp
           \<and> edx_spectra s2 = Some sp"
proof -
  from assms(1,4) have "spx_walk (ch # post) s1 = Inr s2"
    by (simp add: spx_walk_append pbind_def)
  then obtain s' where 1: "spx_step ch s1 = Inr s'" and 2: "spx_walk post s' = Inr s2"
    by (auto simp: pbind_Inr_iff)
  from spx_walk_keeps_spectrum [OF 2 assms(3)] spx_step_channels [OF 1 assms(2)]
  show ?thesis by auto
qed


lemma spectrum_at_channels:
  assumes doc: "spx_files fs (spectrum_path f (to_index start_x x) (to_index start_y y)) = SpxDoc doc"
    and split: "iter doc = pre @ ch # post"
    and ch: "tag ch = ''Channels''"
    and post: "\<forall>e\<in>set post. tag e \<noteq> ''Channels''"
    and pre: "spx_walk pre init_state = Inr s1"
    and res: "generate_spectra fs (Some f) x y = Inr fig"
  shows "\<exists>t sp. etext ch = Some t
          \<and> channels (energy_step s1) (zero_energy s1) (List.enumerate 0 (split_on CHR '','' t)) = Inr sp
          \<and> fig = Scatter (map fst sp) (map (\<lambda>p. of_int (snd p)) sp) ''purple''
                    (spectrum_title f x y)"
proof -
  from generate_spectra_Inr [OF res doc] obtain s sp where
    w: "spx_walk (iter doc) init_state = Inr s" and sp: "edx_spectra s = Some sp"
    and fig: "fig = Scatter (map fst sp) (map (\<lambda>p. of_int (snd p)) sp) ''purple''
                    (spectrum_title f x y)"
    by blast
  from w have w': "spx_walk (pre @ ch # post) init_state = Inr s" by (simp only: split)
  from walk_channels_last [OF w' ch post pre] sp fig show ?thesis by auto
qed

lemma py_int_5: "py_int ''5'' = Inr 5" "py_int ''6'' = Inr 6"
  by (simp_all add: py_int_def strip_def is_space_def split_sign_def digits_def is_digit_def digit_val_def)

lemma py_float_1: "py_float ''1'' = Inr 1" "py_float ''2'' = Inr 2"
  by (simp_all add: py_float_def strip_def is_space_def split_sign_def is_nonfinite_def lower_def
       split_at_def mantissa_def digits_def is_digit_def digit_val_def pow10_def)

lemma path11: "spectrum_path ''A'' (to_index start_x (-40)) (to_index start_y (-40)) = ''./data/EDX/A/Spectrum_(1,1).spx''"
  by code_simp

lemma title11: "spectrum_title ''A'' (-40) (-40) = ''EDX Spectrum for A at position (-40, -40)''"
  by code_simp

lemma gs_first: "generate_spectra (spx_fs doc_cal_first) (Some ''A'') (-40) (-40)
   = Inr (Scatter [3, 5] [5, 6] ''purple'' ''EDX Spectrum for A at position (-40, -40)'')"
  by (simp add: generate_spectra_def path11 title11 spx_fs_def ET_parse_def doc_cal_first_def
        spx_step_def init_state_def pbind_def float_of_text_def py_float_1 py_int_5 enumerate_eq_zip
        upt_conv_Cons get_def)

lemma gs_last: "generate_spectra (spx_fs doc_cal_last) (Some ''A'') (-40) (-40)
   = Inr (Scatter [0, 0] [5, 6] ''purple'' ''EDX Spectrum for A at position (-40, -40)'')"
  by (simp add: generate_spectra_def path11 title11 spx_fs_def ET_parse_def doc_cal_last_def
        spx_step_def init_state_def pbind_def float_of_text_def py_float_1 py_int_5 enumerate_eq_zip
        upt_conv_Cons get_def)


lemma py_float_more: "py_float ''9'' = Inr 9" "py_float ''-1'' = Inr (-1)"
  by (simp_all add: py_float_def strip_def is_space_def split_sign_def is_nonfinite_def lower_def
       split_at_def mantissa_def digits_def is_digit_def digit_val_def pow10_def)

lemma gs_late: "generate_spectra (spx_fs doc_cal_late) (Some ''A'') (-40) (-40)
   = Inr (Scatter [3, 5] [5, 6] ''purple'' ''EDX Spectrum for A at position (-40, -40)'')"
  by (simp add: generate_spectra_def path11 title11 spx_fs_def ET_parse_def doc_cal_late_def
        spx_step_def init_state_def pbind_def float_of_text_def py_float_1 py_float_more py_int_5
        enumerate_eq_zip upt_conv_Cons get_def)

lemma gs_neg: "generate_spectra (spx_fs doc_neg_step) (Some ''A'') (-40) (-40)
   = Inr (Scatter [-1, -2] [5, 6] ''purple'' ''EDX Spectrum for A at position (-40, -40)'')"
  by (simp add: generate_spectra_def path11 title11 spx_fs_def ET_parse_def doc_neg_step_def
        spx_step_def init_state_def pbind_def float_of_text_def py_float_1 py_float_more py_int_5
        enumerate_eq_zip upt_conv_Cons get_def)

lemma iter_doc_cal_late:
  "iter doc_cal_late =
     [doc_cal_late, Element ''CalibLin'' [] (Some ''2'') [], Element ''CalibAbs'' [] (Some ''1'') []]
       @ Element ''Channels'' [] (Some ''5,6'') [] # [Element ''CalibLin'' [] (Some ''9'') []]"
  by (simp add: doc_cal_late_def)

lemma iter_doc_cal_first:
  "iter doc_cal_first =
     [doc_cal_first, Element ''CalibAbs'' [] (Some ''1'') [], Element ''CalibLin'' [] (Some ''2'') []]
       @ Element ''Channels'' [] (Some ''5,6'') [] # []"
  by (simp add: doc_cal_first_def)

lemma walk_pre_late:
  "spx_walk [doc_cal_late, Element ''CalibLin'' [] (Some ''2'') [],
             Element ''CalibAbs'' [] (Some ''1'') []] init_state
     = Inr (init_state\<lparr>energy_step := 2, zero_energy := 1\<rparr>)"
  by (simp add: doc_cal_late_def spx_step_def pbind_def float_of_text_def py_float_1 get_def)

lemma walk_pre_first:
  "spx_walk [doc_cal_first, Element ''CalibAbs'' [] (Some ''1'') [],
             Element ''CalibLin'' [] (Some ''2'') []] init_state
     = Inr (init_state\<lparr>zero_energy := 1, energy_step := 2\<rparr>)"
  by (simp add: doc_cal_first_def spx_step_def pbind_def float_of_text_def py_float_1 get_def)

lemma file_at_11:
  "spx_files (spx_fs doc) (spectrum_path ''A'' (to_index start_x (-40)) (to_index start_y (-40)))
     = SpxDoc doc"
  by (simp add: path11 spx_fs_def)

lemma rounded_energies:
  fixes es ze :: rat and rnd :: "rat \<Rightarrow> rat"
  assumes "mono rnd"
  shows "(0 \<le> es \<longrightarrow>
            sorted_wrt (\<le>) (map (\<lambda>k. rnd (rnd ((of_nat k + 1) * es) + ze)) [0..<n]))
       \<and> (es \<le> 0 \<longrightarrow>
            sorted_wrt (\<lambda>a b. b \<le> a) (map (\<lambda>k. rnd (rnd ((of_nat k + 1) * es) + ze)) [0..<n]))"
proof (intro conjI impI)
  assume "0 \<le> es"
  then have "(of_nat i + 1) * es \<le> (of_nat j + 1) * es" if "i < j" for i j :: nat
    using that by (intro mult_right_mono) simp_all
  then have "rnd (rnd ((of_nat i + 1) * es) + ze) \<le> rnd (rnd ((of_nat j + 1) * es) + ze)"
    if "i < j" for i j :: nat
    using that assms by (intro monoD [OF assms] add_right_mono) simp
  then show "sorted_wrt (\<le>) (map (\<lambda>k. rnd (rnd ((of_nat k + 1) * es) + ze)) [0..<n])"
    by (simp add: sorted_wrt_iff_nth_less)
next
  assume "es \<le> 0"
  then have "(of_nat j + 1) * es \<le> (of_nat i + 1) * es" if "i < j" for i j :: nat
    using that by (intro mult_right_mono_neg) simp_all
  then have "rnd (rnd ((of_nat j + 1) * es) + ze) \<le> rnd (rnd ((of_nat i + 1) * es) + ze)"
    if "i < j" for i j :: nat
    using that assms by (intro monoD [OF assms] add_right_mono) simp
  then show "sorted_wrt (\<lambda>a b. b \<le> a) (map (\<lambda>k. rnd (rnd ((of_nat k + 1) * es) + ze)) [0..<n])"
    by (simp add: sorted_wrt_iff_nth_less)
qed

text \<open>
  C9, as the code has it. Let \<open>Channels\<close> be the last element of that tag in the
  document and \<open>s1\<close> the state of the walk when it is reached. If \<open>generate_spectra\<close>
  returns, the figure has one point per comma-separated value of the \<open>Channels\<close> text,
  the counts are the values read by \<open>int\<close>, and the energy of channel \<open>i\<close> is
  \<open>(i + 1) * energy_step + zero_energy\<close> for the calibration held by \<open>s1\<close>. The energies
  never decrease when that \<open>energy_step\<close> is not negative, and never increase when it is
  not positive. (Nothing more holds of the doubles of line 78: a positive \<open>energy_step\<close>
  below half a unit in the last place of \<open>zero_energy\<close> leaves consecutive energies
  equal. The order survives the rounding of each operation: \<open>rounded_energies\<close>.)
\<close>

theorem spectrum_of_channels:
  assumes doc: "spx_files fs (spectrum_path f (to_index start_x x) (to_index start_y y)) = SpxDoc doc"
    and split: "iter doc = pre @ ch # post"
    and ch: "tag ch = ''Channels''"
    and post: "\<forall>e\<in>set post. tag e \<noteq> ''Channels''"
    and pre: "spx_walk pre init_state = Inr s1"
    and res: "generate_spectra fs (Some f) x y = Inr fig"
  shows "\<exists>t cs. etext ch = Some t
          \<and> map py_int (split_on CHR '','' t) = map Inr cs
          \<and> fig = Scatter (map (\<lambda>i. (of_nat i + 1) * energy_step s1 + zero_energy s1)
                             [0..<length cs])
                          (map of_int cs) ''purple'' (spectrum_title f x y)
          \<and> (0 \<le> energy_step s1 \<longrightarrow>
                sorted_wrt (\<le>) (map (\<lambda>i. (of_nat i + 1) * energy_step s1 + zero_energy s1)
                                  [0..<length cs]))
          \<and> (energy_step s1 \<le> 0 \<longrightarrow>
                sorted_wrt (\<lambda>a b. b \<le> a)
                  (map (\<lambda>i. (of_nat i + 1) * energy_step s1 + zero_energy s1)
                     [0..<length cs]))"
proof -
  from generate_spectra_Inr [OF res doc] obtain s sp where
    w: "spx_walk (iter doc) init_state = Inr s" and sp: "edx_spectra s = Some sp"
    and fig: "fig = Scatter (map fst sp) (map (\<lambda>p. of_int (snd p)) sp) ''purple''
                    (spectrum_title f x y)"
    by blast
  from w have w': "spx_walk (pre @ ch # post) init_state = Inr s" by (simp only: split)
  from walk_channels_last [OF w' ch post pre] sp obtain t where t: "etext ch = Some t"
    and c: "channels (energy_step s1) (zero_energy s1) (List.enumerate 0 (split_on CHR '','' t)) = Inr sp"
    by auto
  let ?ts = "split_on CHR '','' t"
  let ?cs = "map snd sp"
  note ci = channels_Inr [OF c]
  from ci have "length sp = length (List.enumerate 0 ?ts)"
    by (metis length_map)
  then have len: "length sp = length ?ts" by simp
  have e: "List.enumerate 0 ?ts = map (\<lambda>i. (i, ?ts ! i)) [0..<length ?ts]"
    by (rule nth_equalityI) (simp_all add: nth_enumerate_eq)
  from ci have xs: "map fst sp = map (\<lambda>i. (of_nat i + 1) * energy_step s1 + zero_energy s1)
                             [0..<length ?cs]"
    by (simp add: e comp_def len)
  from ci have "map (\<lambda>p. py_int (snd p)) (List.enumerate 0 ?ts) = map Inr ?cs"
    by (simp add: comp_def)
  moreover have "map (\<lambda>p. py_int (snd p)) (List.enumerate 0 ?ts)
      = map py_int (map snd (List.enumerate 0 ?ts))"
    by (simp only: map_map comp_def)
  then have "map (\<lambda>p. py_int (snd p)) (List.enumerate 0 ?ts) = map py_int ?ts"
    by (simp only: map_snd_enumerate)
  ultimately have ints: "map py_int ?ts = map Inr ?cs" by simp
  have ys: "map (\<lambda>p. of_int (snd p)) sp = map of_int ?cs"
    by (simp add: comp_def)
  from t ints fig xs ys monotone_energies [of "energy_step s1" "zero_energy s1" "length ?cs"]
  show ?thesis by (intro exI [of _ t] exI [of _ ?cs]) simp
qed


theorem spectrum_of_channels_witness:
  "spx_files (spx_fs doc_cal_late)
       (spectrum_path ''A'' (to_index start_x (-40)) (to_index start_y (-40))) = SpxDoc doc_cal_late
   \<and> iter doc_cal_late =
       [doc_cal_late, Element ''CalibLin'' [] (Some ''2'') [], Element ''CalibAbs'' [] (Some ''1'') []]
         @ Element ''Channels'' [] (Some ''5,6'') [] # [Element ''CalibLin'' [] (Some ''9'') []]
   \<and> list_all (\<lambda>e. tag e \<noteq> ''Channels'') [Element ''CalibLin'' [] (Some ''9'') []]
   \<and> spx_walk [doc_cal_late, Element ''CalibLin'' [] (Some ''2'') [],
                Element ''CalibAbs'' [] (Some ''1'') []] init_state
       = Inr (init_state\<lparr>energy_step := 2, zero_energy := 1\<rparr>)
   \<and> generate_spectra (spx_fs doc_cal_late) (Some ''A'') (-40) (-40)
       = Inr (Scatter [3, 5] [5, 6] ''purple'' ''EDX Spectrum for A at position (-40, -40)'')
   \<and> (\<exists>cs. map py_int (split_on CHR '','' ''5,6'') = map Inr cs
          \<and> Scatter [3, 5] [5, 6] ''purple'' ''EDX Spectrum for A at position (-40, -40)''
              = Scatter (map (\<lambda>i. (of_nat i + 1) * 2 + 1) [0..<length cs]) (map of_int cs)
                  ''purple'' (spectrum_title ''A'' (-40) (-40))
          \<and> sorted_wrt (\<le>) (map (\<lambda>i. (of_nat i + 1) * 2 + 1 :: rat) [0..<length cs]))"
proof -
  have ch: "tag (Element ''Channels'' [] (Some ''5,6'') []) = ''Channels''" by simp
  have post: "\<forall>e\<in>set [Element ''CalibLin'' [] (Some ''9'') []]. tag e \<noteq> ''Channels''" by simp
  have l: "list_all (\<lambda>e. tag e \<noteq> ''Channels'') [Element ''CalibLin'' [] (Some ''9'') []]" by simp
  from spectrum_of_channels [OF file_at_11 iter_doc_cal_late ch post walk_pre_late gs_late]
  have "\<exists>cs. map py_int (split_on CHR '','' ''5,6'') = map Inr cs
          \<and> Scatter [3, 5] [5, 6] ''purple'' ''EDX Spectrum for A at position (-40, -40)''
              = Scatter (map (\<lambda>i. (of_nat i + 1) * 2 + 1) [0..<length cs]) (map of_int cs)
                  ''purple'' (spectrum_title ''A'' (-40) (-40))
          \<and> sorted_wrt (\<le>) (map (\<lambda>i. (of_nat i + 1) * 2 + 1 :: rat) [0..<length cs])"
    by (simp add: init_state_def)
  with file_at_11 [of doc_cal_late] iter_doc_cal_late l walk_pre_late gs_late show ?thesis
    by blast
qed

text \<open>
  C9 as stated fails: with a negative \<open>CalibLin\<close> the energies decrease.
\<close>

theorem spectrum_not_increasing:
  "generate_spectra (spx_fs doc_neg_step) (Some ''A'') (-40) (-40)
     = Inr (Scatter [-1, -2] [5, 6] ''purple'' ''EDX Spectrum for A at position (-40, -40)'')
   \<and> \<not> sorted_wrt (<) [-1, -2 :: rat] \<and> \<not> sorted_wrt (\<le>) [-1, -2 :: rat]"
  using gs_neg by simp

text \<open>
  C2, as the code has it. The energies are computed when the \<open>Channels\<close> element is
  met, from the calibration read before it. Two documents whose last \<open>Channels\<close>
  elements hold the same text and are reached with the same \<open>energy_step\<close> and
  \<open>zero_energy\<close> yield the same figure, whatever the order of the elements before and
  whatever calibration fields follow.
\<close>

theorem spectrum_same_calibration:
  assumes "spx_files fs (spectrum_path f (to_index start_x x) (to_index start_y y)) = SpxDoc doc"
    and "spx_files fs' (spectrum_path f (to_index start_x x) (to_index start_y y)) = SpxDoc doc'"
    and "iter doc = pre @ ch # post" and "iter doc' = pre' @ ch' # post'"
    and "tag ch = ''Channels''" and "tag ch' = ''Channels''" and "etext ch = etext ch'"
    and "\<forall>e\<in>set post. tag e \<noteq> ''Channels''" and "\<forall>e\<in>set post'. tag e \<noteq> ''Channels''"
    and "spx_walk pre init_state = Inr s" and "spx_walk pre' init_state = Inr s'"
    and "energy_step s = energy_step s'" and "zero_energy s = zero_energy s'"
    and "generate_spectra fs (Some f) x y = Inr fig"
    and "generate_spectra fs' (Some f) x y = Inr fig'"
  shows "fig = fig'"
proof -
  from spectrum_at_channels [OF assms(1) assms(3) assms(5) assms(8) assms(10) assms(14)]
  obtain t sp where 1: "etext ch = Some t"
    "channels (energy_step s) (zero_energy s) (List.enumerate 0 (split_on CHR '','' t)) = Inr sp"
    "fig = Scatter (map fst sp) (map (\<lambda>p. of_int (snd p)) sp) ''purple'' (spectrum_title f x y)"
    by blast
  from spectrum_at_channels [OF assms(2) assms(4) assms(6) assms(9) assms(11) assms(15)]
  obtain t' sp' where 2: "etext ch' = Some t'"
    "channels (energy_step s') (zero_energy s') (List.enumerate 0 (split_on CHR '','' t')) = Inr sp'"
    "fig' = Scatter (map fst sp') (map (\<lambda>p. of_int (snd p)) sp') ''purple'' (spectrum_title f x y)"
    by blast
  from 1(1) 2(1) assms(7) have "t = t'" by simp
  with 1(2) 2(2) assms(12,13) have "sp = sp'" by simp
  with 1(3) 2(3) show ?thesis by simp
qed

theorem spectrum_same_calibration_witness:
  "spx_files (spx_fs doc_cal_first)
       (spectrum_path ''A'' (to_index start_x (-40)) (to_index start_y (-40))) = SpxDoc doc_cal_first
   \<and> spx_files (spx_fs doc_cal_late)
       (spectrum_path ''A'' (to_index start_x (-40)) (to_index start_y (-40))) = SpxDoc doc_cal_late
   \<and> iter doc_cal_first =
       [doc_cal_first, Element ''CalibAbs'' [] (Some ''1'') [], Element ''CalibLin'' [] (Some ''2'') []]
         @ Element ''Channels'' [] (Some ''5,6'') [] # []
   \<and> iter doc_cal_late =
       [doc_cal_late, Element ''CalibLin'' [] (Some ''2'') [], Element ''CalibAbs'' [] (Some ''1'') []]
         @ Element ''Channels'' [] (Some ''5,6'') [] # [Element ''CalibLin'' [] (Some ''9'') []]
   \<and> list_all (\<lambda>e. tag e \<noteq> ''Channels'') [Element ''CalibLin'' [] (Some ''9'') []]
   \<and> spx_walk [doc_cal_first, Element ''CalibAbs'' [] (Some ''1'') [],
                Element ''CalibLin'' [] (Some ''2'') []] init_state
       = Inr (init_state\<lparr>zero_energy := 1, energy_step := 2\<rparr>)
   \<and> spx_walk [doc_cal_late, Element ''CalibLin'' [] (Some ''2'') [],
                Element ''CalibAbs'' [] (Some ''1'') []] init_state
       = Inr (init_state\<lparr>energy_step := 2, zero_energy := 1\<rparr>)
   \<and> generate_spectra (spx_fs doc_cal_first) (Some ''A'') (-40) (-40)
       = Inr (Scatter [3, 5] [5, 6] ''purple'' ''EDX Spectrum for A at position (-40, -40)'')
   \<and> generate_spectra (spx_fs doc_cal_late) (Some ''A'') (-40) (-40)
       = generate_spectra (spx_fs doc_cal_first) (Some ''A'') (-40) (-40)"
proof -
  have ch: "tag (Element ''Channels'' [] (Some ''5,6'') []) = ''Channels''" by simp
  have p1: "\<forall>e\<in>set []. tag e \<noteq> ''Channels''" by simp
  have p2: "\<forall>e\<in>set [Element ''CalibLin'' [] (Some ''9'') []]. tag e \<noteq> ''Channels''" by simp
  have l: "list_all (\<lambda>e. tag e \<noteq> ''Channels'') [Element ''CalibLin'' [] (Some ''9'') []]" by simp
  obtain fig' where g': "generate_spectra (spx_fs doc_cal_late) (Some ''A'') (-40) (-40) = Inr fig'"
    using gs_late by blast
  have "Scatter [3, 5] [5, 6] ''purple'' ''EDX Spectrum for A at position (-40, -40)'' = fig'"
    by (rule spectrum_same_calibration [OF file_at_11 file_at_11 iter_doc_cal_first
          iter_doc_cal_late ch ch refl p1 p2 walk_pre_first walk_pre_late _ _ gs_first g'])
       simp_all
  with g' gs_first have "generate_spectra (spx_fs doc_cal_late) (Some ''A'') (-40) (-40)
       = generate_spectra (spx_fs doc_cal_first) (Some ''A'') (-40) (-40)" by simp
  with file_at_11 [of doc_cal_first] file_at_11 [of doc_cal_late] iter_doc_cal_first
    iter_doc_cal_late l walk_pre_first walk_pre_late gs_first
  show ?thesis by blast
qed

text \<open>
  C2 as stated fails: two documents with the same elements, the calibration fields
  before \<open>Channels\<close> in one and after it in the other, yield different series; the
  second is computed with the defaults \<open>0.0\<close>.
\<close>

theorem spectrum_order_dependent:
  "set (children doc_cal_first) = set (children doc_cal_last)
   \<and> generate_spectra (spx_fs doc_cal_first) (Some ''A'') (-40) (-40)
       = Inr (Scatter [3, 5] [5, 6] ''purple'' ''EDX Spectrum for A at position (-40, -40)'')
   \<and> generate_spectra (spx_fs doc_cal_last) (Some ''A'') (-40) (-40)
       = Inr (Scatter [0, 0] [5, 6] ''purple'' ''EDX Spectrum for A at position (-40, -40)'')"
proof -
  have "set (children doc_cal_first) = set (children doc_cal_last)"
    by (auto simp: doc_cal_first_def doc_cal_last_def)
  with gs_first gs_last show ?thesis by blast
qed

subsection \<open>The Results block\<close>

lemma params_not_markers [simp]: "''Result'' \<notin> set params" "''ExtResults'' \<notin> set params"
  by (simp_all add: params_def)

lemma py_int_error: "py_int t = Inl e \<Longrightarrow> e = ValueError"
  by (auto simp: py_int_def split: prod.splits option.splits)

lemma int_of_text_error: "int_of_text t = Inl e \<Longrightarrow> e \<noteq> IndexError"
  by (cases t) (auto simp: int_of_text_def dest: py_int_error)

lemma append_last_nonempty: "rs \<noteq> [] \<Longrightarrow> \<exists>rs'. append_last kv rs = Inr rs' \<and> rs' \<noteq> []"
  by (simp add: append_last_def)

lemma results_walk_nonempty:
  "rs \<noteq> [] \<Longrightarrow> results_walk cs rs \<noteq> Inl IndexError"
proof (induction cs arbitrary: rs)
  case Nil
  show ?case by simp
next
  case (Cons c cs)
  show ?case
  proof (cases "tag c = ''Result''")
    case True
    then show ?thesis using Cons.IH [of "rs @ [[]]"] by simp
  next
    case nr: False
    show ?thesis
    proof (cases "tag c \<in> set params")
      case False
      then show ?thesis using nr Cons.IH [OF Cons.prems] by simp
    next
      case True
      show ?thesis
      proof (cases "if tag c = ''Atom'' then int_of_text (etext c) else Inr 10")
        case (Inl e)
        then have "e \<noteq> IndexError"
          by (auto split: if_splits dest: int_of_text_error)
        with Inl nr True show ?thesis by (simp add: pbind_def)
      next
        case (Inr n)
        let ?kv = "if tag c = ''Atom'' \<and> n < 10
                   then (tag c, Some (''0'' @ fmt_text (etext c))) else (tag c, etext c)"
        from append_last_nonempty [OF Cons.prems, of ?kv] obtain rs' where
          a: "append_last ?kv rs = Inr rs'" and "rs' \<noteq> []" by blast
        then have "results_walk cs rs' \<noteq> Inl IndexError" using Cons.IH by blast
        moreover have "results_walk (c # cs) rs = results_walk cs rs'"
          using nr True Inr a by (auto simp: pbind_def split: if_splits)
        ultimately show ?thesis by simp
      qed
    qed
  qed
qed

lemma results_walk_marker_first:
  "result_marker_first cs \<Longrightarrow> results_walk cs [] \<noteq> Inl IndexError"
proof (induction cs)
  case Nil
  show ?case by simp
next
  case (Cons c cs)
  show ?case
  proof (cases "tag c = ''Result''")
    case True
    then show ?thesis using results_walk_nonempty [of "[[]]" cs] by simp
  next
    case nr: False
    with Cons.prems have np: "tag c \<notin> set params" and rest: "result_marker_first cs"
      by (auto simp: result_marker_first_def split: if_splits)
    show ?thesis
      using nr np Cons.IH [OF rest] by simp
  qed
qed

lemma results_walk_violation:
  assumes "first_marker cs = Some c" and "tag c \<in> set params"
  shows "results_walk cs [] = Inl (first_access c)"
  using assms
proof (induction cs)
  case Nil
  then show ?case by (simp add: first_marker_def)
next
  case (Cons d cs)
  show ?case
  proof (cases "is_marker d")
    case False
    with Cons show ?thesis by (simp add: first_marker_def is_marker_def)
  next
    case True
    with Cons.prems have d: "d = c" by (simp add: first_marker_def)
    from Cons.prems(2) have nr: "tag c \<noteq> ''Result''" by auto
    show ?thesis
      by (cases "if tag c = ''Atom'' then int_of_text (etext c) else Inr 10")
         (auto simp: d nr Cons.prems(2) pbind_def first_access_def append_last_def
               split: if_splits)
  qed
qed






lemma iter_self: "e \<in> set (iter e)"
  by (cases e) simp


lemma py_int_atoms: "py_int ''26'' = Inr 26" "py_int ''8'' = Inr 8" "py_int ''07'' = Inr 7"
  by (simp_all add: py_int_def strip_def is_space_def split_sign_def digits_def is_digit_def
        digit_val_def)

lemma atom_in_params: "''Atom'' \<in> set params"
  by (simp add: params_def)

lemma walk_block_a: "results_walk (iter block_a) [] = Inr [[(''Atom'', Some ''26'')]]"
  by (simp add: block_a_def params_def int_of_text_def py_int_atoms pbind_def append_last_def)

lemma walk_block_b_after_a:
  "results_walk (iter block_b) [[(''Atom'', Some ''26'')]]
     = Inr [[(''Atom'', Some ''26''), (''Atom'', Some ''08'')]]"
  by (simp add: block_b_def params_def int_of_text_def py_int_atoms pbind_def append_last_def
        fmt_text_def)

lemma walk_block_b: "results_walk (iter block_b) [] = Inl IndexError"
  by (simp add: block_b_def params_def int_of_text_def py_int_atoms pbind_def append_last_def)


lemma step_block_a:
  "spx_step block_a s = pbind (results_walk (iter block_a) (results_ext s))
                          (\<lambda>rs. Inr (s\<lparr>results_ext := rs\<rparr>))"
  by (simp add: spx_step_def block_a_def get_def)

lemma step_block_b:
  "spx_step block_b s = pbind (results_walk (iter block_b) (results_ext s))
                          (\<lambda>rs. Inr (s\<lparr>results_ext := rs\<rparr>))"
  by (simp add: spx_step_def block_b_def get_def)

lemma iter_two_blocks:
  "iter doc_two_blocks =
     [doc_two_blocks, block_a, Element ''Result'' [] None [Element ''Atom'' [] (Some ''26'') []],
      Element ''Atom'' [] (Some ''26'') [], block_b, Element ''Atom'' [] (Some ''8'') []]"
  by (simp add: doc_two_blocks_def block_a_def block_b_def)

lemma walk_two_blocks:
  "spx_walk (iter doc_two_blocks) init_state
     = Inr (init_state\<lparr>results_ext := [[(''Atom'', Some ''26''), (''Atom'', Some ''08'')]]\<rparr>)"
proof -
  have other: "spx_step doc_two_blocks s = Inr s"
    "spx_step (Element ''Result'' [] None [Element ''Atom'' [] (Some ''26'') []]) s = Inr s"
    "spx_step (Element ''Atom'' [] (Some ''26'') []) s = Inr s"
    "spx_step (Element ''Atom'' [] (Some ''8'') []) s = Inr s" for s
    by (simp_all add: spx_step_def doc_two_blocks_def)
  show ?thesis
    unfolding iter_two_blocks
    by (simp add: other step_block_a step_block_b walk_block_a walk_block_b_after_a pbind_def
          init_state_def)
qed

text \<open>
  C10, as the code has it. In the walk of a Results block every whitelisted value is
  appended through \<open>results_ext[-1]\<close>. The access is defined whenever the record list
  is not empty when the block is entered (records of an earlier block remain) or a
  Result marker precedes the first whitelisted tag: the walk never raises
  \<open>IndexError\<close>. When the block is entered with the empty list and the first of its
  markers (Result, whitelisted tag, ExtResults) is a whitelisted tag, the walk raises:
  \<open>IndexError\<close> at the access, or before it the error of \<open>int\<close> on an Atom text.
\<close>

theorem results_walk_last_access:
  "(rs \<noteq> [] \<or> result_marker_first cs \<longrightarrow> results_walk cs rs \<noteq> Inl IndexError)
   \<and> (\<forall>c. first_marker cs = Some c \<and> tag c \<in> set params
          \<longrightarrow> results_walk cs [] = Inl (first_access c))"
proof (intro conjI impI allI)
  assume "rs \<noteq> [] \<or> result_marker_first cs"
  then show "results_walk cs rs \<noteq> Inl IndexError"
  proof
    assume "rs \<noteq> []"
    then show ?thesis by (rule results_walk_nonempty)
  next
    assume m: "result_marker_first cs"
    show ?thesis
    proof (cases "rs = []")
      case True
      with results_walk_marker_first [OF m] show ?thesis by simp
    next
      case False
      then show ?thesis by (rule results_walk_nonempty)
    qed
  qed
next
  fix c
  assume "first_marker cs = Some c \<and> tag c \<in> set params"
  then show "results_walk cs [] = Inl (first_access c)"
    by (simp add: results_walk_violation)
qed


theorem results_walk_last_access_witness:
  "result_marker_first (iter block_a)
   \<and> results_walk (iter block_a) [] = Inr [[(''Atom'', Some ''26'')]]
   \<and> results_walk (iter block_a) [] \<noteq> Inl IndexError
   \<and> first_marker (iter block_b) = Some (Element ''Atom'' [] (Some ''8'') [])
   \<and> tag (Element ''Atom'' [] (Some ''8'') []) \<in> set params
   \<and> first_access (Element ''Atom'' [] (Some ''8'') []) = IndexError
   \<and> results_walk (iter block_b) [] = Inl IndexError"
proof -
  have m: "result_marker_first (iter block_a)"
    by (simp add: result_marker_first_def block_a_def params_def)
  have f: "first_marker (iter block_b) = Some (Element ''Atom'' [] (Some ''8'') [])"
    by (simp add: first_marker_def is_marker_def block_b_def params_def)
  have p: "tag (Element ''Atom'' [] (Some ''8'') []) \<in> set params"
    by (simp add: params_def)
  have a: "first_access (Element ''Atom'' [] (Some ''8'') []) = IndexError"
    by (simp add: first_access_def int_of_text_def py_int_atoms)
  from results_walk_last_access [of "[]" "iter block_a"] m
  have 1: "results_walk (iter block_a) [] \<noteq> Inl IndexError" by blast
  from results_walk_last_access [of "[]" "iter block_b"] f p
  have 2: "results_walk (iter block_b) [] = Inl (first_access (Element ''Atom'' [] (Some ''8'') []))"
    by blast
  from m walk_block_a 1 f p a 2 show ?thesis by simp
qed

text \<open>
  C10 as stated fails: in a second Results block whose Atom precedes every Result
  marker, the access is defined; the value joins the last record of the first block.
\<close>

theorem second_block_access_defined:
  "\<not> result_marker_first (iter block_b)
   \<and> results_walk (iter block_b) [[(''Atom'', Some ''26'')]]
       = Inr [[(''Atom'', Some ''26''), (''Atom'', Some ''08'')]]
   \<and> spx_walk (iter doc_two_blocks) init_state
       = Inr (init_state\<lparr>results_ext := [[(''Atom'', Some ''26''), (''Atom'', Some ''08'')]]\<rparr>)"
proof -
  have "\<not> result_marker_first (iter block_b)"
    by (simp add: result_marker_first_def block_b_def params_def)
  with walk_block_b_after_a walk_two_blocks show ?thesis by blast
qed





end
